theory Spec2Isabelle
  imports Main
begin

section \<open>Webhook signature validation (client/hmac.go)\<close>

text \<open>
  A shallow embedding of \<^verbatim>\<open>src/client/hmac.go\<close>: \<^verbatim>\<open>ValidatePayload\<close>,
  \<^verbatim>\<open>PayloadSignature\<close>, \<^verbatim>\<open>extractHmacs\<close> and \<^verbatim>\<open>extractTokens\<close>.

  A Go \<^verbatim>\<open>byte\<close> is an 8-bit value and a Go \<^verbatim>\<open>string\<close> is an immutable sequence of
  bytes; both are lists of \<^typ>\<open>char\<close> here (a HOL \<^typ>\<open>char\<close> is one byte), so the
  conversion \<^verbatim>\<open>[]byte(s)\<close> is the identity. Calls to \<^verbatim>\<open>logrus\<close> only write log
  records and are left out.
\<close>

subsection \<open>Data model\<close>

type_synonym bytes = "char list"

text \<open>\<^verbatim>\<open>time.Time\<close>, read from the store but never used by this file.\<close>

type_synonym Time = int

record hmacSecret =
  Value :: string
  CreatedAt :: Time

type_synonym hmacsForRepo = "hmacSecret list"

text \<open>
  Of \<^verbatim>\<open>github.User\<close> and \<^verbatim>\<open>github.Repository\<close> (go-github) only the fields the
  payload's identity is read from; both are pointers in Go, \<open>None\<close> is \<^verbatim>\<open>nil\<close>.
\<close>

record User =
  Login :: "string option"

record Repository =
  FullName :: "string option"

record genericEvent =
  Sender :: User
  Repo :: Repository

text \<open>
  \<^verbatim>\<open>func (r *Repository) GetFullName() string\<close> of go-github: the empty string when
  the field is \<^verbatim>\<open>nil\<close>.
\<close>

definition GetFullName :: "Repository \<Rightarrow> string" where
  "GetFullName r = (case FullName r of None \<Rightarrow> [] | Some n \<Rightarrow> n)"

subsection \<open>Library functions taken as parameters\<close>

text \<open>
  The parsers and the hash are libraries outside this repository. They are parameters of
  the model:
  \<^item> \<open>json_Unmarshal\<close> is \<^verbatim>\<open>json.Unmarshal(payload, &event)\<close>; \<open>None\<close> is \<^verbatim>\<open>err != nil\<close>;
  \<^item> \<open>yaml_Unmarshal\<close> is \<^verbatim>\<open>yaml.Unmarshal(t, &repoToTokenMap)\<close> into a
    \<^verbatim>\<open>map[string]hmacsForRepo\<close>; \<open>None\<close> is \<^verbatim>\<open>err != nil\<close>;
  \<^item> \<open>hmac_sha1 key msg\<close> is \<^verbatim>\<open>mac := hmac.New(sha1.New, key); mac.Write(msg); mac.Sum(nil)\<close>.
\<close>

record libs =
  json_Unmarshal :: "bytes \<Rightarrow> genericEvent option"
  yaml_Unmarshal :: "bytes \<Rightarrow> (string \<rightharpoonup> hmacsForRepo) option"
  hmac_sha1 :: "bytes \<Rightarrow> bytes \<Rightarrow> bytes"

text \<open>
  \<^verbatim>\<open>tokenGenerator func() []byte\<close> is a closure: it may read and change state of its own.
  It is a function on a state \<open>'s\<close> that returns the bytes and the new state, and every
  function that calls it passes the state on.
\<close>

type_synonym 's tokenGenerator = "'s \<Rightarrow> bytes \<times> 's"

subsection \<open>Standard-library functions modelled in full\<close>

text \<open>\<^verbatim>\<open>strings.HasPrefix\<close>: \<^verbatim>\<open>len(s) >= len(prefix) && s[:len(prefix)] == prefix\<close>.\<close>

definition strings_HasPrefix :: "string \<Rightarrow> string \<Rightarrow> bool" where
  "strings_HasPrefix s pre \<longleftrightarrow> length s \<ge> length pre \<and> take (length pre) s = pre"

text \<open>
  \<^verbatim>\<open>strings.Split(s, sep)\<close> for a separator of one byte, the only use in this file
  (\<^verbatim>\<open>strings.Split(repo, "/")\<close>): the pieces of \<open>s\<close> between the occurrences of the
  separator, \<open>n + 1\<close> pieces for \<open>n\<close> occurrences.
\<close>

fun strings_Split :: "string \<Rightarrow> char \<Rightarrow> string list" where
  "strings_Split [] sep = [[]]"
| "strings_Split (c # cs) sep =
     (if c = sep then [] # strings_Split cs sep
      else (case strings_Split cs sep of
              [] \<Rightarrow> [[c]]
            | piece # pieces \<Rightarrow> (c # piece) # pieces))"

text \<open>\<^verbatim>\<open>encoding/hex\<close>: \<^verbatim>\<open>const hextable = "0123456789abcdef"\<close>.\<close>

definition hextable :: string where
  "hextable = ''0123456789abcdef''"

text \<open>
  \<^verbatim>\<open>hex.EncodeToString\<close>: each byte \<open>v\<close> gives \<^verbatim>\<open>hextable[v>>4]\<close> and
  \<^verbatim>\<open>hextable[v&0x0f]\<close>.
\<close>

definition hex_EncodeToString :: "bytes \<Rightarrow> string" where
  "hex_EncodeToString src =
     concat (map (\<lambda>v. [hextable ! ((of_char v :: nat) div 16),
                        hextable ! ((of_char v :: nat) mod 16)]) src)"

text \<open>
  \<^verbatim>\<open>fromHexChar\<close>: the value of a hexadecimal digit, lower or upper case; \<open>None\<close> is
  \<^verbatim>\<open>ok == false\<close>.
\<close>

definition fromHexChar :: "char \<Rightarrow> nat option" where
  "fromHexChar c =
     (let n = (of_char c :: nat) in
      if 48 \<le> n \<and> n \<le> 57 then Some (n - 48)
      else if 97 \<le> n \<and> n \<le> 102 then Some (n - 97 + 10)
      else if 65 \<le> n \<and> n \<le> 70 then Some (n - 65 + 10)
      else None)"

datatype hex_error = InvalidByteError char | ErrLength

text \<open>
  \<^verbatim>\<open>hex.DecodeString\<close>: two digits make one byte \<^verbatim>\<open>(a << 4) | b\<close>; the first byte that
  is no digit is an \<^verbatim>\<open>InvalidByteError\<close>; an odd length is \<^verbatim>\<open>ErrLength\<close>, reported
  after the last digit has been checked.
\<close>

fun hex_DecodeString :: "string \<Rightarrow> hex_error + bytes" where
  "hex_DecodeString [] = Inr []"
| "hex_DecodeString [p] =
     (case fromHexChar p of
        None \<Rightarrow> Inl (InvalidByteError p)
      | Some a \<Rightarrow> Inl ErrLength)"
| "hex_DecodeString (p # q # rest) =
     (case fromHexChar p of
        None \<Rightarrow> Inl (InvalidByteError p)
      | Some a \<Rightarrow>
          (case fromHexChar q of
             None \<Rightarrow> Inl (InvalidByteError q)
           | Some b \<Rightarrow>
               (case hex_DecodeString rest of
                  Inl err \<Rightarrow> Inl err
                | Inr dst \<Rightarrow> Inr (char_of (a * 16 + b) # dst))))"

text \<open>
  What a caller that only tests \<^verbatim>\<open>err != nil\<close> sees of a decoding: the bytes, or that
  there was an error.
\<close>

fun decoded :: "hex_error + bytes \<Rightarrow> bytes option" where
  "decoded (Inl err) = None"
| "decoded (Inr sb) = Some sb"

text \<open>
  \<^verbatim>\<open>hmac.Equal\<close> is \<^verbatim>\<open>subtle.ConstantTimeCompare(mac1, mac2) == 1\<close>: true exactly when
  the two slices have the same length and the same bytes. Its running time is not part
  of this model.
\<close>

definition hmac_Equal :: "bytes \<Rightarrow> bytes \<Rightarrow> bool" where
  "hmac_Equal mac1 mac2 \<longleftrightarrow> length mac1 = length mac2 \<and> mac1 = mac2"

text \<open>\<^verbatim>\<open>strings.ToUpper\<close> on one ASCII byte: \<open>a\<close> to \<open>z\<close> become \<open>A\<close> to \<open>Z\<close>.\<close>

definition toUpper :: "char \<Rightarrow> char" where
  "toUpper c =
     (let n = (of_char c :: nat) in
      if 97 \<le> n \<and> n \<le> 122 then char_of (n - 32) else c)"

definition strings_ToUpper :: "string \<Rightarrow> string" where
  "strings_ToUpper s = map toUpper s"

subsection \<open>The functions of hmac.go\<close>

text \<open>
  \<^verbatim>\<open>extractTokens\<close>: a slice of \<^verbatim>\<open>len(allTokens)\<close> entries is made, then entry \<open>i\<close> is
  set to \<^verbatim>\<open>[]byte(allTokens[i].Value)\<close> for \<open>i\<close> from \<open>0\<close> up.
\<close>

definition extractTokens :: "hmacsForRepo \<Rightarrow> bytes list" where
  "extractTokens allTokens =
     fold (\<lambda>i validTokens. validTokens[i := Value (allTokens ! i)])
          [0 ..< length allTokens]
          (replicate (length allTokens) [])"

text \<open>
  The error of \<^verbatim>\<open>extractHmacs\<close>:
  \<^verbatim>\<open>errors.New("invalid content in secret file, global token doesn't exist")\<close>.
\<close>

datatype error = GlobalTokenMissing

text \<open>
  \<^verbatim>\<open>strings.Split(repo, "/")[0]\<close>. \<^verbatim>\<open>strings.Split\<close> never returns an empty slice for a
  non-empty separator (lemma \<open>strings_Split_not_Nil\<close>), so the index is in range.
\<close>

definition orgName :: "string \<Rightarrow> string" where
  "orgName repo = hd (strings_Split repo (CHR ''/''))"

text \<open>
  \<^verbatim>\<open>extractHmacs\<close>: the generator is called first; bytes that do not parse are returned
  whole as one token; otherwise the keys \<open>repo\<close>, \<open>orgName\<close> and \<open>*\<close> are looked up in
  this order.
\<close>

definition extractHmacs ::
  "libs \<Rightarrow> string \<Rightarrow> 's tokenGenerator \<Rightarrow> 's \<Rightarrow> (error + bytes list) \<times> 's" where
  "extractHmacs env repo tokenGenerator s =
     (let (t, s') = tokenGenerator s in
      (case yaml_Unmarshal env t of
         None \<Rightarrow> (Inr [t], s')
       | Some repoToTokenMap \<Rightarrow>
           (case repoToTokenMap repo of
              Some val \<Rightarrow> (Inr (extractTokens val), s')
            | None \<Rightarrow>
                (case repoToTokenMap (orgName repo) of
                   Some val \<Rightarrow> (Inr (extractTokens val), s')
                 | None \<Rightarrow>
                     (case repoToTokenMap ''*'' of
                        Some val \<Rightarrow> (Inr (extractTokens val), s')
                      | None \<Rightarrow> (Inl GlobalTokenMissing, s'))))))"

text \<open>
  The loop of \<^verbatim>\<open>ValidatePayload\<close> over the candidate keys: the first key whose MAC of
  the payload equals the decoded signature returns \<^verbatim>\<open>true\<close>; the end of the slice
  returns \<^verbatim>\<open>false\<close>.
\<close>

fun matchHmacs :: "libs \<Rightarrow> bytes \<Rightarrow> bytes \<Rightarrow> bytes list \<Rightarrow> bool" where
  "matchHmacs env payload sb [] = False"
| "matchHmacs env payload sb (key # hmacs) =
     (if hmac_Equal sb (hmac_sha1 env key payload) then True
      else matchHmacs env payload sb hmacs)"

text \<open>
  \<^verbatim>\<open>ValidatePayload\<close>, with the state of the generator passed through. Each early
  \<^verbatim>\<open>return false\<close> of the source is a branch that returns the state as it found it.
\<close>

definition ValidatePayload ::
  "libs \<Rightarrow> bytes \<Rightarrow> string \<Rightarrow> 's tokenGenerator \<Rightarrow> 's \<Rightarrow> bool \<times> 's" where
  "ValidatePayload env payload sig tokenGenerator s =
     (case json_Unmarshal env payload of
        None \<Rightarrow> (False, s)
      | Some event \<Rightarrow>
          if \<not> strings_HasPrefix sig ''sha1='' then (False, s)
          else
            (case hex_DecodeString (drop 5 sig) of
               Inl err \<Rightarrow> (False, s)
             | Inr sb \<Rightarrow>
                 (case extractHmacs env (GetFullName (Repo event)) tokenGenerator s of
                    (Inl err, s') \<Rightarrow> (False, s')
                  | (Inr hmacs, s') \<Rightarrow> (matchHmacs env payload sb hmacs, s'))))"

text \<open>\<^verbatim>\<open>PayloadSignature\<close>.\<close>

definition PayloadSignature :: "libs \<Rightarrow> bytes \<Rightarrow> bytes \<Rightarrow> string" where
  "PayloadSignature env payload key =
     ''sha1='' @ hex_EncodeToString (hmac_sha1 env key payload)"

subsection \<open>Generators and a concrete instance of the libraries\<close>

text \<open>
  Two generators: one that returns fixed bytes and has no state, and a wrapper that adds
  a counter of calls to the state of any generator.

  \<open>demo_libs\<close> is an instance of the library parameters for evaluating the model on
  concrete inputs. It is defined on the payloads and secret stores named below, where it
  gives what the Go libraries give: \<^verbatim>\<open>json.Unmarshal\<close> accepts the two complete objects
  (an absent \<^verbatim>\<open>repository\<close> leaves \<^verbatim>\<open>FullName\<close> at \<^verbatim>\<open>nil\<close>) and rejects the truncated
  one, \<^verbatim>\<open>yaml.Unmarshal\<close> accepts the four mappings and rejects the scalar
  \<^verbatim>\<open>mysecret\<close>, and the digests are those of HMAC-SHA1. Every other input is rejected
  by the parsers and hashed to twenty zero bytes; no theorem below evaluates
  \<open>demo_libs\<close> there.
\<close>

definition constGenerator :: "bytes \<Rightarrow> unit tokenGenerator" where
  "constGenerator t s = (t, s)"

definition counted :: "'s tokenGenerator \<Rightarrow> (nat \<times> 's) tokenGenerator" where
  "counted tokenGenerator cs =
     (case cs of (calls, s) \<Rightarrow>
        (case tokenGenerator s of (t, s') \<Rightarrow> (t, (Suc calls, s'))))"

definition payloadRepo :: bytes where
  \<open>payloadRepo = ''{"repository":{"full_name":"org/repo"}}''\<close>

definition payloadEmpty :: bytes where
  "payloadEmpty = ''{}''"

definition payloadTruncated :: bytes where
  \<open>payloadTruncated = ''{"repository":''\<close>

definition storeLegacy :: bytes where
  "storeLegacy = ''mysecret''"

definition storeGlobal :: bytes where
  \<open>storeGlobal = ''{"*":[{"value":"secretA"},{"value":"secretB"}]}''\<close>

definition storeHier :: bytes where
  \<open>storeHier = ''{"org/repo":[{"value":"secretA"}],"org":[{"value":"secretB"}],"*":[{"value":"secretC"}]}''\<close>

definition storeNoGlobal :: bytes where
  \<open>storeNoGlobal = ''{"someorg":[{"value":"secretA"}]}''\<close>

definition storeEmpty :: bytes where
  "storeEmpty = ''{}''"

definition secret :: "string \<Rightarrow> hmacSecret" where
  "secret v = \<lparr>Value = v, CreatedAt = 0\<rparr>"

definition demo_json :: "bytes \<Rightarrow> genericEvent option" where
  "demo_json p =
     (if p = payloadRepo
      then Some \<lparr>Sender = \<lparr>Login = None\<rparr>, Repo = \<lparr>FullName = Some ''org/repo''\<rparr>\<rparr>
      else if p = payloadEmpty
      then Some \<lparr>Sender = \<lparr>Login = None\<rparr>, Repo = \<lparr>FullName = None\<rparr>\<rparr>
      else None)"

definition demo_yaml :: "bytes \<Rightarrow> (string \<rightharpoonup> hmacsForRepo) option" where
  "demo_yaml t =
     (if t = storeGlobal
      then Some [''*'' \<mapsto> [secret ''secretA'', secret ''secretB'']]
      else if t = storeHier
      then Some [''org/repo'' \<mapsto> [secret ''secretA''],
                 ''org'' \<mapsto> [secret ''secretB''],
                 ''*'' \<mapsto> [secret ''secretC'']]
      else if t = storeNoGlobal
      then Some [''someorg'' \<mapsto> [secret ''secretA'']]
      else if t = storeEmpty
      then Some Map.empty
      else None)"

definition demo_hmac :: "bytes \<Rightarrow> bytes \<Rightarrow> bytes" where
  "demo_hmac key msg =
     (if key = ''mysecret'' \<and> msg = payloadRepo then
        [CHR 0x4E, CHR 0x9F, CHR 0x0F, CHR 0x06, CHR 0x25, CHR 0x75, CHR 0xCD, CHR 0xE2,
         CHR 0x61, CHR 0xB7, CHR 0x33, CHR 0xC3, CHR 0x32, CHR 0xEB, CHR 0xEA, CHR 0x27,
         CHR 0xD7, CHR 0x5E, CHR 0xF7, CHR 0x96]
      else if key = ''secretA'' \<and> msg = payloadRepo then
        [CHR 0xF7, CHR 0xAB, CHR 0xA0, CHR 0xF0, CHR 0x92, CHR 0xD8, CHR 0xA4, CHR 0xC5,
         CHR 0x18, CHR 0xF3, CHR 0xE4, CHR 0xF6, CHR 0x2F, CHR 0x3A, CHR 0x27, CHR 0xE1,
         CHR 0xEA, CHR 0x8F, CHR 0xEE, CHR 0xF5]
      else if key = ''secretB'' \<and> msg = payloadRepo then
        [CHR 0x1D, CHR 0xAE, CHR 0xF7, CHR 0x07, CHR 0x94, CHR 0x59, CHR 0x42, CHR 0xB9,
         CHR 0x01, CHR 0xF9, CHR 0x23, CHR 0x81, CHR 0xC8, CHR 0xC3, CHR 0x85, CHR 0x00,
         CHR 0x9D, CHR 0x7F, CHR 0x7F, CHR 0x3E]
      else if key = ''mysecret'' \<and> msg = payloadEmpty then
        [CHR 0x4E, CHR 0x49, CHR 0xCD, CHR 0xC0, CHR 0x17, CHR 0xA0, CHR 0xF9, CHR 0xC4,
         CHR 0xBA, CHR 0xC2, CHR 0xB0, CHR 0xF5, CHR 0x81, CHR 0xD3, CHR 0x06, CHR 0x7B,
         CHR 0x65, CHR 0x03, CHR 0xC4, CHR 0x23]
      else if key = ''mysecret'' \<and> msg = payloadTruncated then
        [CHR 0xE3, CHR 0x20, CHR 0x05, CHR 0x7D, CHR 0x93, CHR 0x2A, CHR 0xFB, CHR 0x85,
         CHR 0xF9, CHR 0x71, CHR 0xFE, CHR 0xF0, CHR 0x3B, CHR 0x96, CHR 0x90, CHR 0x32,
         CHR 0x39, CHR 0xB9, CHR 0xDA, CHR 0x0B]
      else if key = ''secretA'' \<and> msg = payloadTruncated then
        [CHR 0x4B, CHR 0xDF, CHR 0x47, CHR 0x2A, CHR 0x63, CHR 0xD6, CHR 0xAD, CHR 0xD3,
         CHR 0xD1, CHR 0x5B, CHR 0xC6, CHR 0x7D, CHR 0xC0, CHR 0x3C, CHR 0xD9, CHR 0x00,
         CHR 0xFA, CHR 0xCA, CHR 0xD3, CHR 0x4D]
      else replicate 20 (CHR 0x00))"

definition demo_libs :: libs where
  "demo_libs = \<lparr>json_Unmarshal = demo_json, yaml_Unmarshal = demo_yaml, hmac_sha1 = demo_hmac\<rparr>"

lemmas demo_defs = demo_libs_def demo_json_def demo_yaml_def demo_hmac_def
  payloadRepo_def payloadEmpty_def payloadTruncated_def
  storeLegacy_def storeGlobal_def storeHier_def storeNoGlobal_def storeEmpty_def
  secret_def constGenerator_def

section \<open>Properties\<close>

subsection \<open>Auxiliary facts\<close>

lemma strings_Split_not_Nil: "strings_Split s sep \<noteq> []"
  by (induction s) (auto split: list.splits)

lemma hd_strings_Split: "hd (strings_Split s sep) = takeWhile (\<lambda>c. c \<noteq> sep) s"
  by (induction s) (auto split: list.splits simp: strings_Split_not_Nil)

lemma orgName_takeWhile: "orgName repo = takeWhile (\<lambda>c. c \<noteq> CHR ''/'') repo"
  by (simp add: orgName_def hd_strings_Split)

lemma extractTokens_loop:
  "n \<le> length ts \<Longrightarrow>
   fold (\<lambda>i vs. vs[i := Value (ts ! i)]) [0 ..< n] (replicate (length ts) []) =
   map Value (take n ts) @ replicate (length ts - n) []"
proof (induction n)
  case 0
  then show ?case by simp
next
  case (Suc n)
  then have n: "n < length ts" by simp
  then obtain m where m: "length ts - n = Suc m" "length ts - Suc n = m"
    by (cases "length ts - n") auto
  have "(map Value (take n ts) @ replicate (length ts - n) [])[n := Value (ts ! n)] =
        map Value (take (Suc n) ts) @ replicate (length ts - Suc n) []"
    using n by (simp add: m take_Suc_conv_app_nth list_update_append)
  with Suc show ?case by simp
qed

lemma extractTokens_map: "extractTokens ts = map Value ts"
  by (simp add: extractTokens_def extractTokens_loop)

lemma matchHmacs_iff:
  "matchHmacs env payload sb hmacs \<longleftrightarrow> (\<exists>key \<in> set hmacs. hmac_sha1 env key payload = sb)"
  by (induction hmacs) (auto simp: hmac_Equal_def)

lemma hextable_digit: "k < 16 \<Longrightarrow> fromHexChar (hextable ! k) = Some k"
proof -
  assume "k < 16"
  then have "k = 0 \<or> k = 1 \<or> k = 2 \<or> k = 3 \<or> k = 4 \<or> k = 5 \<or> k = 6 \<or> k = 7 \<or>
             k = 8 \<or> k = 9 \<or> k = 10 \<or> k = 11 \<or> k = 12 \<or> k = 13 \<or> k = 14 \<or> k = 15"
    by arith
  then show ?thesis
    by (elim disjE) (simp_all add: hextable_def fromHexChar_def)
qed

lemma hex_roundtrip: "hex_DecodeString (hex_EncodeToString src) = Inr src"
proof (induction src)
  case Nil
  then show ?case by (simp add: hex_EncodeToString_def)
next
  case (Cons v src)
  have hi: "(of_char v :: nat) div 16 < 16"
    using nat_of_char_less_256 [of v] by arith
  have lo: "(of_char v :: nat) mod 16 < 16" by simp
  have rejoin: "char_of ((of_char v :: nat) div 16 * 16 + of_char v mod 16) = v"
    by simp
  from Cons show ?case
    by (simp add: hex_EncodeToString_def hextable_digit [OF hi] hextable_digit [OF lo] rejoin)
qed

lemma extractHmacs_state: "snd (extractHmacs env repo g st) = snd (g st)"
  by (simp add: extractHmacs_def split: prod.splits option.splits)

lemma extractHmacs_legacy:
  "yaml_Unmarshal env (fst (g st)) = None \<Longrightarrow>
   fst (extractHmacs env repo g st) = Inr [fst (g st)]"
  by (cases "g st") (simp add: extractHmacs_def)

lemma extractHmacs_parsed:
  "yaml_Unmarshal env (fst (g st)) = Some m \<Longrightarrow>
   fst (extractHmacs env repo g st) =
     (case m repo of
         Some val \<Rightarrow> Inr (map Value val)
       | None \<Rightarrow>
           (case m (takeWhile (\<lambda>c. c \<noteq> CHR ''/'') repo) of
              Some val \<Rightarrow> Inr (map Value val)
            | None \<Rightarrow>
                (case m ''*'' of
                   Some val \<Rightarrow> Inr (map Value val)
                 | None \<Rightarrow> Inl GlobalTokenMissing)))"
  by (cases "g st")
     (simp add: extractHmacs_def extractTokens_map orgName_takeWhile split: option.splits)

lemma HasPrefix_append: "strings_HasPrefix (pre @ r) pre"
  by (simp add: strings_HasPrefix_def)

lemma ValidatePayload_reached:
  "json_Unmarshal env p = Some event \<Longrightarrow> strings_HasPrefix sig ''sha1='' \<Longrightarrow>
   hex_DecodeString (drop 5 sig) = Inr sb \<Longrightarrow>
   fst (extractHmacs env (GetFullName (Repo event)) g st) = Inr hmacs \<Longrightarrow>
   fst (ValidatePayload env p sig g st) \<longleftrightarrow> (\<exists>key \<in> set hmacs. hmac_sha1 env key p = sb)"
  by (cases "extractHmacs env (GetFullName (Repo event)) g st")
     (simp add: ValidatePayload_def matchHmacs_iff)

lemma ValidatePayload_unresolved:
  "json_Unmarshal env p = Some event \<Longrightarrow>
   fst (extractHmacs env (GetFullName (Repo event)) g st) = Inl e \<Longrightarrow>
   \<not> fst (ValidatePayload env p sig g st)"
  by (cases "extractHmacs env (GetFullName (Repo event)) g st")
     (simp add: ValidatePayload_def split: sum.splits)

lemma ValidatePayload_signed:
  "json_Unmarshal env p = Some event \<Longrightarrow>
   fst (extractHmacs env (GetFullName (Repo event)) g st) = Inr hmacs \<Longrightarrow>
   fst (ValidatePayload env p (PayloadSignature env p s) g st) \<longleftrightarrow>
     (\<exists>key \<in> set hmacs. hmac_sha1 env key p = hmac_sha1 env s p)"
  by (rule ValidatePayload_reached)
     (simp_all add: PayloadSignature_def HasPrefix_append [of "''sha1=''", simplified] hex_roundtrip)

lemma ValidatePayload_malformed:
  "json_Unmarshal env p = None \<Longrightarrow> ValidatePayload env p sig g st = (False, st)"
  by (simp add: ValidatePayload_def)

lemma ValidatePayload_state:
  "snd (ValidatePayload env p sig g st) =
     (if json_Unmarshal env p \<noteq> None \<and> strings_HasPrefix sig ''sha1='' \<and>
         \<not> isl (hex_DecodeString (drop 5 sig))
      then snd (g st) else st)"
proof (cases "json_Unmarshal env p")
  case None
  then show ?thesis by (simp add: ValidatePayload_def)
next
  case (Some event)
  obtain r st' where r: "extractHmacs env (GetFullName (Repo event)) g st = (r, st')"
    by (cases "extractHmacs env (GetFullName (Repo event)) g st")
  then have "st' = snd (g st)"
    using extractHmacs_state [of env "GetFullName (Repo event)" g st] by simp
  with Some r show ?thesis
    by (simp add: ValidatePayload_def split: sum.splits)
qed

lemma fromHexChar_toUpper: "fromHexChar (toUpper c) = fromHexChar c"
proof -
  have n: "(of_char c :: nat) < 256" by simp
  show ?thesis
  proof (cases "97 \<le> (of_char c :: nat) \<and> (of_char c :: nat) \<le> 122")
    case True
    with n have "(of_char c - 32 :: nat) mod 256 = of_char c - 32"
      by (intro mod_less) arith
    with True have "(of_char (toUpper c) :: nat) = of_char c - 32"
      by (simp add: toUpper_def)
    with True show ?thesis
      by (auto simp: fromHexChar_def Let_def)
  next
    case False
    then show ?thesis by (auto simp: toUpper_def)
  qed
qed

lemma hex_DecodeString_upper:
  "decoded (hex_DecodeString (map toUpper d)) = decoded (hex_DecodeString d)"
proof (induction d rule: hex_DecodeString.induct)
  case 1
  then show ?case by simp
next
  case (2 p)
  then show ?case by (simp add: fromHexChar_toUpper split: option.splits)
next
  case (3 p q rest)
  show ?case
  proof (cases "fromHexChar p")
    case None
    then show ?thesis by (simp add: fromHexChar_toUpper)
  next
    case a: (Some a)
    show ?thesis
    proof (cases "fromHexChar q")
      case None
      with a show ?thesis by (simp add: fromHexChar_toUpper)
    next
      case b: (Some b)
      from "3.IH" [OF a b] a b show ?thesis
        by (cases "hex_DecodeString rest"; cases "hex_DecodeString (map toUpper rest)")
           (simp_all add: fromHexChar_toUpper)
    qed
  qed
qed

lemma ValidatePayload_decoded:
  "decoded (hex_DecodeString r) = decoded (hex_DecodeString r') \<Longrightarrow>
   ValidatePayload env p (''sha1='' @ r) g st = ValidatePayload env p (''sha1='' @ r') g st"
  by (cases "hex_DecodeString r"; cases "hex_DecodeString r'")
     (simp_all add: ValidatePayload_def strings_HasPrefix_def split: option.splits)

subsection \<open>C1: round trip of PayloadSignature and ValidatePayload\<close>

text \<open>
  C1, as stated, for every payload: it fails on a payload that \<^verbatim>\<open>json.Unmarshal\<close>
  rejects. The store \<open>storeGlobal\<close> resolves to the candidates \<open>secretA\<close>, \<open>secretB\<close>
  (for every repository: its only key is \<open>*\<close>), the truncated payload is signed with
  \<open>secretA\<close>, and \<^verbatim>\<open>ValidatePayload\<close> returns \<^verbatim>\<open>false\<close> at its first check.
\<close>

theorem roundtrip_counterexample:
  "fst (extractHmacs demo_libs ''org/repo'' (constGenerator storeGlobal) ()) =
     Inr [''secretA'', ''secretB''] \<and>
   fst (extractHmacs demo_libs [] (constGenerator storeGlobal) ()) =
     Inr [''secretA'', ''secretB''] \<and>
   \<not> fst (ValidatePayload demo_libs payloadTruncated
            (PayloadSignature demo_libs payloadTruncated ''secretA'')
            (constGenerator storeGlobal) ())"
  by (simp add: ValidatePayload_def extractHmacs_def extractTokens_map orgName_takeWhile demo_defs)

text \<open>
  C1, amended: for every payload \<open>p\<close> that \<^verbatim>\<open>json.Unmarshal\<close> accepts and every secret
  \<open>s\<close>, \<^verbatim>\<open>ValidatePayload(p, PayloadSignature(p, s), supplier)\<close> returns \<^verbatim>\<open>true\<close>
  whenever the supplier's bytes resolve, for the repository name of \<open>p\<close>, to a candidate
  set that contains \<open>s\<close>.
\<close>

theorem roundtrip:
  assumes "json_Unmarshal env p = Some event"
    and "fst (extractHmacs env (GetFullName (Repo event)) tokenGenerator st) = Inr hmacs"
    and "s \<in> set hmacs"
  shows "fst (ValidatePayload env p (PayloadSignature env p s) tokenGenerator st)"
  using assms by (auto simp: ValidatePayload_signed)

text \<open>
  The round trip at the payload for \<open>org/repo\<close>, signed with the second secret of the
  global scope.
\<close>

theorem roundtrip_witness:
  "fst (ValidatePayload demo_libs payloadRepo
         (PayloadSignature demo_libs payloadRepo ''secretB'')
         (constGenerator storeGlobal) ())"
proof (rule roundtrip)
  show "json_Unmarshal demo_libs payloadRepo =
          Some \<lparr>Sender = \<lparr>Login = None\<rparr>, Repo = \<lparr>FullName = Some ''org/repo''\<rparr>\<rparr>"
    by (simp add: demo_defs)
  show "fst (extractHmacs demo_libs
               (GetFullName (Repo \<lparr>Sender = \<lparr>Login = None\<rparr>, Repo = \<lparr>FullName = Some ''org/repo''\<rparr>\<rparr>))
               (constGenerator storeGlobal) ()) = Inr [''secretA'', ''secretB'']"
    by (simp add: extractHmacs_def extractTokens_map orgName_takeWhile GetFullName_def demo_defs)
  show "''secretB'' \<in> set [''secretA'', ''secretB'']" by simp
qed

subsection \<open>C2: precedence of the scopes\<close>

text \<open>
  C2: when the store parses as a mapping \<open>m\<close>, the resolver returns the token values of
  the key equal to the repository's full name if there is one; otherwise those of the key
  equal to the organization, the part of the full name before its first \<open>/\<close>; otherwise
  those of the key \<open>*\<close>. The result is the values of that one scope only, nothing of a
  less specific scope is added.
\<close>

theorem scope_precedence:
  assumes "yaml_Unmarshal env (fst (tokenGenerator st)) = Some m"
  shows "(m repo = Some val \<longrightarrow>
            fst (extractHmacs env repo tokenGenerator st) = Inr (map Value val)) \<and>
         (m repo = None \<and> m (takeWhile (\<lambda>c. c \<noteq> CHR ''/'') repo) = Some val \<longrightarrow>
            fst (extractHmacs env repo tokenGenerator st) = Inr (map Value val)) \<and>
         (m repo = None \<and> m (takeWhile (\<lambda>c. c \<noteq> CHR ''/'') repo) = None \<and>
          m ''*'' = Some val \<longrightarrow>
            fst (extractHmacs env repo tokenGenerator st) = Inr (map Value val))"
  using assms extractHmacs_parsed [of env tokenGenerator st m repo] by simp


text \<open>
  The store with the keys \<open>org/repo\<close>, \<open>org\<close> and \<open>*\<close>: each of three repositories
  gets the secret of its most specific scope alone.
\<close>

theorem scope_precedence_witness:
  "fst (extractHmacs demo_libs ''org/repo'' (constGenerator storeHier) ()) = Inr [''secretA''] \<and>
   fst (extractHmacs demo_libs ''org/other'' (constGenerator storeHier) ()) = Inr [''secretB''] \<and>
   fst (extractHmacs demo_libs ''unrelated/repo'' (constGenerator storeHier) ()) = Inr [''secretC'']"
proof -
  let ?m = "[''org/repo'' \<mapsto> [secret ''secretA''], ''org'' \<mapsto> [secret ''secretB''],
             ''*'' \<mapsto> [secret ''secretC'']]"
  have y: "yaml_Unmarshal demo_libs (fst (constGenerator storeHier ())) = Some ?m"
    by (simp add: demo_defs)
  show ?thesis
    using y
      scope_precedence [of demo_libs "constGenerator storeHier" "()" ?m
        "''org/repo''" "[secret ''secretA'']"]
      scope_precedence [of demo_libs "constGenerator storeHier" "()" ?m
        "''org/other''" "[secret ''secretB'']"]
      scope_precedence [of demo_libs "constGenerator storeHier" "()" ?m
        "''unrelated/repo''" "[secret ''secretC'']"]
    by (simp add: secret_def)
qed

subsection \<open>C3: the legacy store\<close>

text \<open>
  C3, as stated, ends with "any payload signed with that literal token validates". The
  store \<open>mysecret\<close> does not parse as a mapping, the truncated payload is signed with
  \<open>mysecret\<close>, and \<^verbatim>\<open>ValidatePayload\<close> returns \<^verbatim>\<open>false\<close>: the payload is rejected by
  \<^verbatim>\<open>json.Unmarshal\<close> before the store is read.
\<close>

theorem legacy_fallback_counterexample:
  "yaml_Unmarshal demo_libs storeLegacy = None \<and>
   \<not> fst (ValidatePayload demo_libs payloadTruncated
            (PayloadSignature demo_libs payloadTruncated storeLegacy)
            (constGenerator storeLegacy) ())"
  by (simp add: ValidatePayload_def demo_defs)

text \<open>
  C3, amended: for every secret store whose bytes do not parse as the mapping, the
  resolver returns these bytes, whole, as the only candidate, and returns no error; so
  every payload that \<^verbatim>\<open>json.Unmarshal\<close> accepts and that is signed with these bytes
  validates.
\<close>

theorem legacy_fallback:
  assumes "yaml_Unmarshal env (fst (tokenGenerator st)) = None"
  shows "fst (extractHmacs env repo tokenGenerator st) = Inr [fst (tokenGenerator st)] \<and>
         (json_Unmarshal env p = Some event \<longrightarrow>
            fst (ValidatePayload env p (PayloadSignature env p (fst (tokenGenerator st)))
                   tokenGenerator st))"
proof -
  have "fst (extractHmacs env r tokenGenerator st) = Inr [fst (tokenGenerator st)]" for r
    using assms extractHmacs_legacy [of env tokenGenerator st r] by simp
  then show ?thesis
    by (auto simp: ValidatePayload_signed [where hmacs = "[fst (tokenGenerator st)]"])
qed

text \<open>The store \<open>mysecret\<close> and the payload for \<open>org/repo\<close> signed with it.\<close>

theorem legacy_fallback_witness:
  "fst (extractHmacs demo_libs ''org/repo'' (constGenerator storeLegacy) ()) = Inr [''mysecret''] \<and>
   fst (ValidatePayload demo_libs payloadRepo
         (PayloadSignature demo_libs payloadRepo ''mysecret'') (constGenerator storeLegacy) ())"
proof -
  have g: "fst (constGenerator storeLegacy ()) = ''mysecret''"
    by (simp add: constGenerator_def storeLegacy_def)
  have y: "yaml_Unmarshal demo_libs (fst (constGenerator storeLegacy ())) = None"
    by (simp add: demo_defs)
  have j: "json_Unmarshal demo_libs payloadRepo =
             Some \<lparr>Sender = \<lparr>Login = None\<rparr>, Repo = \<lparr>FullName = Some ''org/repo''\<rparr>\<rparr>"
    by (simp add: demo_defs)
  show ?thesis
    using legacy_fallback [of demo_libs "constGenerator storeLegacy" "()" "''org/repo''" payloadRepo]
      y j g by simp
qed

subsection \<open>C4: no scope applies\<close>

text \<open>
  C4: when the store parses as a mapping that has no key equal to the repository's full
  name, none equal to its organization and no key \<open>*\<close> (the mapping with no key at all
  is one of these), the resolver returns the error, and \<^verbatim>\<open>ValidatePayload\<close> returns
  \<^verbatim>\<open>false\<close> for every signature, on every payload that is rejected or names that
  repository.
\<close>

theorem resolution_failure:
  assumes "yaml_Unmarshal env (fst (tokenGenerator st)) = Some m"
    and "m repo = None" and "m (takeWhile (\<lambda>c. c \<noteq> CHR ''/'') repo) = None"
    and "m ''*'' = None"
    and "\<forall>event. json_Unmarshal env p = Some event \<longrightarrow> GetFullName (Repo event) = repo"
  shows "fst (extractHmacs env repo tokenGenerator st) = Inl GlobalTokenMissing \<and>
         \<not> fst (ValidatePayload env p sig tokenGenerator st)"
proof -
  have e: "fst (extractHmacs env repo tokenGenerator st) = Inl GlobalTokenMissing"
    using assms(1-4) extractHmacs_parsed [of env tokenGenerator st m repo] by simp
  have "\<not> fst (ValidatePayload env p sig tokenGenerator st)"
  proof (cases "json_Unmarshal env p")
    case None
    then show ?thesis by (simp add: ValidatePayload_def)
  next
    case (Some event)
    with assms(5) e show ?thesis
      by (auto dest: ValidatePayload_unresolved)
  qed
  with e show ?thesis by simp
qed

text \<open>
  The store with the single key \<open>someorg\<close> and the store with no key, for the payload of
  \<open>org/repo\<close> with a correctly formed signature.
\<close>

theorem resolution_failure_witness:
  "(fst (extractHmacs demo_libs ''org/repo'' (constGenerator storeNoGlobal) ()) = Inl GlobalTokenMissing \<and>
    \<not> fst (ValidatePayload demo_libs payloadRepo
             (PayloadSignature demo_libs payloadRepo ''secretA'') (constGenerator storeNoGlobal) ())) \<and>
   (fst (extractHmacs demo_libs ''org/repo'' (constGenerator storeEmpty) ()) = Inl GlobalTokenMissing \<and>
    \<not> fst (ValidatePayload demo_libs payloadRepo
             (PayloadSignature demo_libs payloadRepo ''secretA'') (constGenerator storeEmpty) ()))"
proof -
  have j: "\<forall>event. json_Unmarshal demo_libs payloadRepo = Some event \<longrightarrow>
             GetFullName (Repo event) = ''org/repo''"
    by (auto simp: GetFullName_def demo_defs)
  have y1: "yaml_Unmarshal demo_libs (fst (constGenerator storeNoGlobal ())) =
              Some [''someorg'' \<mapsto> [secret ''secretA'']]"
    and y2: "yaml_Unmarshal demo_libs (fst (constGenerator storeEmpty ())) = Some Map.empty"
    by (simp_all add: demo_defs)
  show ?thesis
    using y1 y2 j
      resolution_failure [of demo_libs "constGenerator storeNoGlobal" "()"
        "[''someorg'' \<mapsto> [secret ''secretA'']]" "''org/repo''" payloadRepo]
      resolution_failure [of demo_libs "constGenerator storeEmpty" "()"
        Map.empty "''org/repo''" payloadRepo]
    by simp
qed

subsection \<open>C5: malformed payloads\<close>

text \<open>
  C5, as stated, also for valid JSON that lacks \<^verbatim>\<open>repository.full_name\<close>: it fails on
  the payload \<^verbatim>\<open>{}\<close>. \<^verbatim>\<open>json.Unmarshal\<close> accepts it and leaves \<^verbatim>\<open>FullName\<close> at
  \<^verbatim>\<open>nil\<close>, the repository name is the empty string, and with the legacy store
  \<open>mysecret\<close> and the signature made with \<open>mysecret\<close> the call returns \<^verbatim>\<open>true\<close>.
\<close>

theorem malformed_payload_counterexample:
  "json_Unmarshal demo_libs payloadEmpty =
     Some \<lparr>Sender = \<lparr>Login = None\<rparr>, Repo = \<lparr>FullName = None\<rparr>\<rparr> \<and>
   fst (ValidatePayload demo_libs payloadEmpty
         (PayloadSignature demo_libs payloadEmpty ''mysecret'')
         (constGenerator storeLegacy) ())"
  by (simp add: ValidatePayload_def extractHmacs_def strings_HasPrefix_def fromHexChar_def
      PayloadSignature_def hex_EncodeToString_def hextable_def
      hmac_Equal_def GetFullName_def char_of_eq_iff demo_defs)

text \<open>
  C5, amended: for every byte sequence that \<^verbatim>\<open>json.Unmarshal\<close> rejects,
  \<^verbatim>\<open>ValidatePayload\<close> returns \<^verbatim>\<open>false\<close>, an ordinary boolean result, whatever the
  signature and the secret store, and without calling the generator. Valid JSON without
  \<^verbatim>\<open>repository.full_name\<close> is not rejected for that: it is validated with the empty
  string as the repository name, against the candidates the store resolves for it.
\<close>

theorem malformed_payload:
  "(json_Unmarshal env p = None \<longrightarrow>
      ValidatePayload env p sig tokenGenerator st = (False, st)) \<and>
   (json_Unmarshal env p = Some event \<and> FullName (Repo event) = None \<and>
    strings_HasPrefix sig ''sha1='' \<and> hex_DecodeString (drop 5 sig) = Inr sb \<and>
    fst (extractHmacs env [] tokenGenerator st) = Inr hmacs \<longrightarrow>
      fst (ValidatePayload env p sig tokenGenerator st) =
        (\<exists>key \<in> set hmacs. hmac_sha1 env key p = sb))"
  by (auto simp: ValidatePayload_malformed GetFullName_def
      ValidatePayload_reached [where event = event and hmacs = hmacs])

text \<open>
  The truncated payload, with a signature made from it and the legacy store; and the
  payload \<^verbatim>\<open>{}\<close> with the digest of another payload, checked against the legacy token
  and refused because the digest differs.
\<close>

theorem malformed_payload_witness:
  "ValidatePayload demo_libs payloadTruncated
     (PayloadSignature demo_libs payloadTruncated ''mysecret'')
     (constGenerator storeLegacy) () = (False, ()) \<and>
   \<not> fst (ValidatePayload demo_libs payloadEmpty
           ''sha1=4e9f0f062575cde261b733c332ebea27d75ef796'' (constGenerator storeLegacy) ())"
proof -
  let ?ev = "\<lparr>Sender = \<lparr>Login = None\<rparr>, Repo = \<lparr>FullName = None\<rparr>\<rparr>"
  let ?sb = "[CHR 0x4E, CHR 0x9F, CHR 0x0F, CHR 0x06, CHR 0x25, CHR 0x75, CHR 0xCD, CHR 0xE2,
              CHR 0x61, CHR 0xB7, CHR 0x33, CHR 0xC3, CHR 0x32, CHR 0xEB, CHR 0xEA, CHR 0x27,
              CHR 0xD7, CHR 0x5E, CHR 0xF7, CHR 0x96]"
  have t: "json_Unmarshal demo_libs payloadTruncated = None"
    and j: "json_Unmarshal demo_libs payloadEmpty = Some ?ev"
    by (simp_all add: demo_defs)
  have h: "strings_HasPrefix ''sha1=4e9f0f062575cde261b733c332ebea27d75ef796'' ''sha1=''"
    by (simp add: strings_HasPrefix_def)
  have d: "hex_DecodeString (drop 5 ''sha1=4e9f0f062575cde261b733c332ebea27d75ef796'') = Inr ?sb"
    by (simp add: fromHexChar_def char_of_eq_iff)
  have e: "fst (extractHmacs demo_libs [] (constGenerator storeLegacy) ()) = Inr [''mysecret'']"
    by (simp add: extractHmacs_def demo_defs)
  have m: "hmac_sha1 demo_libs ''mysecret'' payloadEmpty \<noteq> ?sb"
    by (simp add: demo_defs)
  show ?thesis
    using t j h d e m
      malformed_payload [where env = demo_libs and p = payloadTruncated
        and tokenGenerator = "constGenerator storeLegacy" and st = "()"
        and sig = "PayloadSignature demo_libs payloadTruncated ''mysecret''"]
      malformed_payload [where env = demo_libs and p = payloadEmpty and event = ?ev
        and tokenGenerator = "constGenerator storeLegacy" and st = "()"
        and sig = "''sha1=4e9f0f062575cde261b733c332ebea27d75ef796''"
        and sb = ?sb and hmacs = "[''mysecret'']"]
    by simp
qed

subsection \<open>C6: the prefix and the hexadecimal digits of the signature\<close>

text \<open>
  C6: a signature header that does not begin with \<open>sha1=\<close> makes \<^verbatim>\<open>ValidatePayload\<close>
  return \<^verbatim>\<open>false\<close>, whatever follows and for every payload and store; so does a header
  that begins with \<open>sha1=\<close> and whose remainder \<^verbatim>\<open>hex.DecodeString\<close> rejects.
\<close>

theorem prefix_enforcement:
  "(\<not> strings_HasPrefix sig ''sha1='' \<longrightarrow>
      \<not> fst (ValidatePayload env p sig tokenGenerator st)) \<and>
   (strings_HasPrefix sig ''sha1='' \<and> hex_DecodeString (drop 5 sig) = Inl err \<longrightarrow>
      \<not> fst (ValidatePayload env p sig tokenGenerator st))"
  by (simp add: ValidatePayload_def split: option.splits)

text \<open>
  The correct digest of the payload under the prefix \<open>sha256=\<close>, the same digest with
  no prefix, and a header with a character that is no hexadecimal digit.
\<close>

theorem prefix_enforcement_witness:
  "\<not> fst (ValidatePayload demo_libs payloadRepo
           ''sha256=4e9f0f062575cde261b733c332ebea27d75ef796'' (constGenerator storeLegacy) ()) \<and>
   \<not> fst (ValidatePayload demo_libs payloadRepo
           ''4e9f0f062575cde261b733c332ebea27d75ef796'' (constGenerator storeLegacy) ()) \<and>
   \<not> fst (ValidatePayload demo_libs payloadRepo
           ''sha1=4e9f0f062575cde261b733c332ebea27d75ef79g'' (constGenerator storeLegacy) ())"
proof -
  have a: "\<not> strings_HasPrefix ''sha256=4e9f0f062575cde261b733c332ebea27d75ef796'' ''sha1=''"
    and b: "\<not> strings_HasPrefix ''4e9f0f062575cde261b733c332ebea27d75ef796'' ''sha1=''"
    and c: "strings_HasPrefix ''sha1=4e9f0f062575cde261b733c332ebea27d75ef79g'' ''sha1=''"
    by (simp_all add: strings_HasPrefix_def)
  have d: "hex_DecodeString (drop 5 ''sha1=4e9f0f062575cde261b733c332ebea27d75ef79g'') =
             Inl (InvalidByteError CHR ''g'')"
    by (simp add: fromHexChar_def)
  note inst = prefix_enforcement [where env = demo_libs and p = payloadRepo
      and tokenGenerator = "constGenerator storeLegacy" and st = "()"]
  show ?thesis
    using a b c d
      inst [where sig = "''sha256=4e9f0f062575cde261b733c332ebea27d75ef796''"]
      inst [where sig = "''4e9f0f062575cde261b733c332ebea27d75ef796''"]
      inst [where sig = "''sha1=4e9f0f062575cde261b733c332ebea27d75ef79g''"
        and err = "InvalidByteError CHR ''g''"]
    by simp
qed

subsection \<open>C7: calls of the generator\<close>

text \<open>
  C7, as stated, for every call: with a header that lacks the prefix,
  \<^verbatim>\<open>ValidatePayload\<close> returns before \<^verbatim>\<open>extractHmacs\<close> is reached, and the counter of
  calls of the generator still is \<open>0\<close>.
\<close>

theorem generator_calls_counterexample:
  "fst (snd (ValidatePayload demo_libs payloadRepo
          ''4e9f0f062575cde261b733c332ebea27d75ef796''
          (counted (constGenerator storeLegacy)) (0, ()))) = 0"
  by (simp add: ValidatePayload_def strings_HasPrefix_def demo_defs)

text \<open>
  C7, amended: \<^verbatim>\<open>ValidatePayload\<close> calls the generator exactly once when
  \<^verbatim>\<open>json.Unmarshal\<close> accepts the payload, the header begins with \<open>sha1=\<close> and its
  remainder decodes as hexadecimal, whatever the outcome after that; it does not call the
  generator in a call that returns at one of these three checks.
\<close>

theorem generator_calls:
  "fst (snd (ValidatePayload env p sig (counted tokenGenerator) (calls, st))) =
     (if json_Unmarshal env p \<noteq> None \<and> strings_HasPrefix sig ''sha1='' \<and>
         \<not> isl (hex_DecodeString (drop 5 sig))
      then Suc calls else calls)"
  by (simp add: ValidatePayload_state counted_def split: prod.splits)

text \<open>
  One call for a matching signature, one call for a well-formed signature that does not
  match, no call for the truncated payload.
\<close>

theorem generator_calls_witness:
  "fst (snd (ValidatePayload demo_libs payloadRepo
          ''sha1=4e9f0f062575cde261b733c332ebea27d75ef796''
          (counted (constGenerator storeLegacy)) (0, ()))) = 1 \<and>
   fst (snd (ValidatePayload demo_libs payloadRepo
          ''sha1=00''
          (counted (constGenerator storeLegacy)) (0, ()))) = 1 \<and>
   fst (snd (ValidatePayload demo_libs payloadTruncated
          ''sha1=4e9f0f062575cde261b733c332ebea27d75ef796''
          (counted (constGenerator storeLegacy)) (0, ()))) = 0"
  using generator_calls [of demo_libs payloadRepo
        "''sha1=4e9f0f062575cde261b733c332ebea27d75ef796''" "constGenerator storeLegacy" 0 "()"]
    generator_calls [of demo_libs payloadRepo "''sha1=00''" "constGenerator storeLegacy" 0 "()"]
    generator_calls [of demo_libs payloadTruncated
        "''sha1=4e9f0f062575cde261b733c332ebea27d75ef796''" "constGenerator storeLegacy" 0 "()"]
  by (simp add: strings_HasPrefix_def fromHexChar_def demo_defs)

subsection \<open>C8: several candidates\<close>

text \<open>
  C8: the candidates of a scope are the values of its records in the order of the
  records; once the payload and the header have passed their checks,
  \<^verbatim>\<open>ValidatePayload\<close> returns \<^verbatim>\<open>true\<close> exactly when the MAC of the payload under one of
  the candidates, taken by index, equals the decoded signature; so with a store whose
  matched scope is \<open>*\<close>, a payload signed with the value of any record of that scope
  validates.
\<close>

theorem multi_candidate:
  "extractTokens val = map Value val \<and>
   (json_Unmarshal env p = Some event \<and> strings_HasPrefix sig ''sha1='' \<and>
    hex_DecodeString (drop 5 sig) = Inr sb \<and>
    fst (extractHmacs env (GetFullName (Repo event)) tokenGenerator st) = Inr hmacs \<longrightarrow>
      fst (ValidatePayload env p sig tokenGenerator st) =
        (\<exists>i < length hmacs. hmac_sha1 env (hmacs ! i) p = sb)) \<and>
   (json_Unmarshal env p = Some event \<and>
    yaml_Unmarshal env (fst (tokenGenerator st)) = Some m \<and>
    m (GetFullName (Repo event)) = None \<and>
    m (takeWhile (\<lambda>c. c \<noteq> CHR ''/'') (GetFullName (Repo event))) = None \<and>
    m ''*'' = Some val \<and> tok \<in> set val \<longrightarrow>
      fst (ValidatePayload env p (PayloadSignature env p (Value tok)) tokenGenerator st))"
proof (intro conjI impI)
  show "extractTokens val = map Value val"
    by (rule extractTokens_map)
next
  assume "json_Unmarshal env p = Some event \<and> strings_HasPrefix sig ''sha1='' \<and>
    hex_DecodeString (drop 5 sig) = Inr sb \<and>
    fst (extractHmacs env (GetFullName (Repo event)) tokenGenerator st) = Inr hmacs"
  then have "fst (ValidatePayload env p sig tokenGenerator st) \<longleftrightarrow>
      (\<exists>key \<in> set hmacs. hmac_sha1 env key p = sb)"
    by (simp add: ValidatePayload_reached)
  then show "fst (ValidatePayload env p sig tokenGenerator st) =
      (\<exists>i < length hmacs. hmac_sha1 env (hmacs ! i) p = sb)"
    by (simp add: Bex_def in_set_conv_nth) blast
next
  assume a: "json_Unmarshal env p = Some event \<and>
    yaml_Unmarshal env (fst (tokenGenerator st)) = Some m \<and>
    m (GetFullName (Repo event)) = None \<and>
    m (takeWhile (\<lambda>c. c \<noteq> CHR ''/'') (GetFullName (Repo event))) = None \<and>
    m ''*'' = Some val \<and> tok \<in> set val"
  then have "fst (extractHmacs env (GetFullName (Repo event)) tokenGenerator st) =
      Inr (map Value val)"
    using extractHmacs_parsed [of env tokenGenerator st m "GetFullName (Repo event)"] by simp
  with a show "fst (ValidatePayload env p (PayloadSignature env p (Value tok)) tokenGenerator st)"
    by (auto simp: ValidatePayload_signed [where event = event and hmacs = "map Value val"])
qed

text \<open>The store with two secrets under \<open>*\<close>: a signature with either is accepted.\<close>

theorem multi_candidate_witness:
  "fst (ValidatePayload demo_libs payloadRepo
         (PayloadSignature demo_libs payloadRepo ''secretA'') (constGenerator storeGlobal) ()) \<and>
   fst (ValidatePayload demo_libs payloadRepo
         (PayloadSignature demo_libs payloadRepo ''secretB'') (constGenerator storeGlobal) ())"
proof -
  let ?ev = "\<lparr>Sender = \<lparr>Login = None\<rparr>, Repo = \<lparr>FullName = Some ''org/repo''\<rparr>\<rparr>"
  let ?val = "[secret ''secretA'', secret ''secretB'']"
  have j: "json_Unmarshal demo_libs payloadRepo = Some ?ev"
    by (simp add: demo_defs)
  have y: "yaml_Unmarshal demo_libs (fst (constGenerator storeGlobal ())) = Some [''*'' \<mapsto> ?val]"
    by (simp add: demo_defs)
  note inst = multi_candidate [where env = demo_libs and p = payloadRepo and event = ?ev
      and tokenGenerator = "constGenerator storeGlobal" and st = "()"
      and m = "[''*'' \<mapsto> ?val]" and val = ?val]
  show ?thesis
    using j y inst [where tok = "secret ''secretA''"] inst [where tok = "secret ''secretB''"]
    by (simp add: GetFullName_def secret_def)
qed

subsection \<open>C10: upper-case hexadecimal digits\<close>

text \<open>
  C10: for every payload, generator and digest string \<open>d\<close> (of 40 hexadecimal digits or
  any other), \<^verbatim>\<open>ValidatePayload\<close> returns the same for the header \<open>sha1=\<close> followed by
  \<open>d\<close> and for \<open>sha1=\<close> followed by \<open>d\<close> in upper case.
\<close>

theorem hex_case_insensitive:
  "ValidatePayload env p (''sha1='' @ strings_ToUpper d) tokenGenerator st =
   ValidatePayload env p (''sha1='' @ d) tokenGenerator st"
  unfolding strings_ToUpper_def
  by (rule ValidatePayload_decoded) (rule hex_DecodeString_upper)

text \<open>The digest of the payload for \<open>org/repo\<close> in upper case is accepted.\<close>

theorem hex_case_insensitive_witness:
  "strings_ToUpper ''4e9f0f062575cde261b733c332ebea27d75ef796'' =
     ''4E9F0F062575CDE261B733C332EBEA27D75EF796'' \<and>
   ValidatePayload demo_libs payloadRepo ''sha1=4E9F0F062575CDE261B733C332EBEA27D75EF796''
     (constGenerator storeLegacy) () = (True, ())"
proof -
  have u: "strings_ToUpper ''4e9f0f062575cde261b733c332ebea27d75ef796'' =
     ''4E9F0F062575CDE261B733C332EBEA27D75EF796''"
    by (simp add: strings_ToUpper_def toUpper_def char_of_eq_iff)
  have l: "ValidatePayload demo_libs payloadRepo ''sha1=4e9f0f062575cde261b733c332ebea27d75ef796''
     (constGenerator storeLegacy) () = (True, ())"
    by (simp add: ValidatePayload_def extractHmacs_def strings_HasPrefix_def fromHexChar_def
      hmac_Equal_def GetFullName_def char_of_eq_iff demo_defs)
  show ?thesis
    using u l hex_case_insensitive [of demo_libs payloadRepo
        "''4e9f0f062575cde261b733c332ebea27d75ef796''" "constGenerator storeLegacy" "()"]
    by simp
qed

end
